theory Spec2Isabelle
  imports Complex_Main "HOL-Library.Sublist"
begin

section \<open>Data model (types.ts)\<close>

text \<open>
  Strings are lists of code units (\<^typ>\<open>char\<close>); the development covers the code units
  below 256. A finite JavaScript number is modelled by the rational it denotes, with exact
  arithmetic; the values that are not finite numbers are separate constructors of
  \<open>number\<close>. An optional field \<open>f?: string\<close> is a \<^typ>\<open>string option\<close>, with
  \<^term>\<open>None\<close> for \<open>undefined\<close>.
\<close>

datatype number = NaN | Fin rat | PosInf | NegInf

record Client =
  client_id :: string
  client_name :: string
  client_taxId :: string
  client_email :: string
  client_address :: string
  client_city :: "string option"
  client_zip :: "string option"
  client_phone :: "string option"
  client_country :: "string option"

record Product =
  product_id :: string
  product_code :: string
  product_name :: string
  product_price :: number
  product_unit :: "string option"
  product_description :: "string option"

record InvoiceItem =
  item_id :: string
  item_productId :: string
  item_productName :: string
  item_quantity :: rat
  item_unitPrice :: rat
  item_total :: rat

datatype status = Draft | Paid | Pending

record Invoice =
  inv_id :: string
  inv_number :: string
  inv_clientId :: string
  inv_clientName :: string
  inv_clientAddress :: string
  inv_clientTaxId :: string
  inv_date :: string
  inv_items :: "InvoiceItem list"
  inv_subtotal :: rat
  inv_taxRate :: rat
  inv_taxName :: string
  inv_taxAmount :: rat
  inv_retentionRate :: rat
  inv_retentionName :: string
  inv_retentionAmount :: rat
  inv_total :: rat
  inv_status :: status

section \<open>Dashboard (App.tsx)\<close>

text \<open>
  \<^verbatim>\<open>const chartData = invoices.map(i => ({ name: i.date, total: i.total }));\<close>
\<close>

record ChartPoint =
  point_name :: string
  point_total :: rat

definition chartData :: "Invoice list \<Rightarrow> ChartPoint list" where
  "chartData invoices = map (\<lambda>i. \<lparr>point_name = inv_date i, point_total = inv_total i\<rparr>) invoices"





text \<open>
  The date-bucketed series in the words of the specification: one point per distinct
  invoice date, the amount of a point being the sum of the totals of the invoices of
  that date.
\<close>

definition dateBucketed :: "Invoice list \<Rightarrow> ChartPoint list \<Rightarrow> bool" where
  "dateBucketed invoices pts \<longleftrightarrow>
     distinct (map point_name pts) \<and>
     set (map point_name pts) = set (map inv_date invoices) \<and>
     list_all (\<lambda>p. point_total p =
        sum_list (map inv_total (filter (\<lambda>i. inv_date i = point_name p) invoices))) pts"

definition sampleInvoice :: "string \<Rightarrow> string \<Rightarrow> rat \<Rightarrow> Invoice" where
  "sampleInvoice num date amount =
     \<lparr>inv_id = num, inv_number = num, inv_clientId = ''c1'', inv_clientName = ''Acme'',
      inv_clientAddress = ''Av. Reforma 123'', inv_clientTaxId = ''XAXX010101000'',
      inv_date = date, inv_items = [], inv_subtotal = amount, inv_taxRate = 0,
      inv_taxName = ''IVA'', inv_taxAmount = 0, inv_retentionRate = 0,
      inv_retentionName = ''ISR'', inv_retentionAmount = 0, inv_total = amount,
      inv_status = Pending\<rparr>"

section \<open>String and number primitives of the host language\<close>

text \<open>
  The built-in operations the source calls, on code units below 256:
  \<open>String.prototype.trim\<close>, \<open>split\<close> with a one-character separator,
  \<open>toUpperCase\<close>,
  array indexing (\<open>undefined\<close> out of range), the operators \<open>?.\<close> and \<open>||\<close> on
  strings, and \<open>parseFloat\<close> on decimal literals.
\<close>

definition isWhiteSpace :: "char \<Rightarrow> bool" where
  "isWhiteSpace c \<longleftrightarrow> of_char c \<in> {9, 10, 11, 12, 13, 32, 160 :: nat}"

definition trim :: "string \<Rightarrow> string" where
  "trim s = rev (dropWhile isWhiteSpace (rev (dropWhile isWhiteSpace s)))"

fun split :: "char \<Rightarrow> string \<Rightarrow> string list" where
  "split sep [] = [[]]"
| "split sep (c # cs) =
     (if c = sep then [] # split sep cs
      else (case split sep cs of [] \<Rightarrow> [[c]] | w # ws \<Rightarrow> (c # w) # ws))"

text \<open>
  \<open>toUpperCase\<close>, code unit by code unit: \<open>a\<close> to \<open>z\<close> and the letters \<open>0xE0\<close> to
  \<open>0xFE\<close> (without the division sign \<open>0xF7\<close>) move down by \<open>0x20\<close>, the sharp s
  \<open>0xDF\<close> becomes \<open>SS\<close>. The upper-case forms of \<open>0xB5\<close> (micro sign) and \<open>0xFF\<close>
  (y with diaeresis) are the code units \<open>0x39C\<close> and \<open>0x178\<close>, which lie outside the
  code units covered here; these two are left as they are.
\<close>

definition upperCaseUnit :: "char \<Rightarrow> string" where
  "upperCaseUnit c =
     (let n = (of_char c :: nat) in
      if 97 \<le> n \<and> n \<le> 122 then [char_of (n - 32)]
      else if n = 223 then ''SS''
      else if 224 \<le> n \<and> n \<le> 254 \<and> n \<noteq> 247 then [char_of (n - 32)]
      else [c])"

definition toUpperCase :: "string \<Rightarrow> string" where
  "toUpperCase s = concat (map upperCaseUnit s)"

definition col :: "string list \<Rightarrow> nat \<Rightarrow> string option" where
  "col cols i = (if i < length cols then Some (cols ! i) else None)"

text \<open>\<open>x || d\<close> on an optional string: \<open>undefined\<close> and the empty string are falsy.\<close>

definition orElse :: "string option \<Rightarrow> string \<Rightarrow> string" where
  "orElse x d = (case x of None \<Rightarrow> d | Some s \<Rightarrow> if s = [] then d else s)"

text \<open>
  \<open>!x?.trim()\<close> is false exactly when \<open>x\<close> is a string with something left after
  trimming; \<open>required\<close> returns that string, and \<^term>\<open>None\<close> when the test is true.
\<close>

definition required :: "string option \<Rightarrow> string option" where
  "required x = (case x of None \<Rightarrow> None | Some s \<Rightarrow> if trim s = [] then None else Some s)"

definition isDigit :: "char \<Rightarrow> bool" where
  "isDigit c \<longleftrightarrow> (48::nat) \<le> of_char c \<and> of_char c \<le> (57::nat)"

definition digitValue :: "char \<Rightarrow> nat" where
  "digitValue c = of_char c - 48"

definition digitsValue :: "string \<Rightarrow> nat" where
  "digitsValue ds = foldl (\<lambda>acc c. 10 * acc + digitValue c) 0 ds"

definition exponentPart :: "string \<Rightarrow> int" where
  "exponentPart r =
     (case r of [] \<Rightarrow> 0
      | c # r1 \<Rightarrow>
          if c = CHR ''e'' \<or> c = CHR ''E'' then
            (case r1 of [] \<Rightarrow> 0
             | d # r2 \<Rightarrow>
                 if d = CHR ''-'' then - int (digitsValue (takeWhile isDigit r2))
                 else if d = CHR ''+'' then int (digitsValue (takeWhile isDigit r2))
                 else int (digitsValue (takeWhile isDigit r1)))
          else 0)"

definition scale10 :: "rat \<Rightarrow> int \<Rightarrow> rat" where
  "scale10 m e = (if 0 \<le> e then m * 10 ^ nat e else m / 10 ^ nat (- e))"

definition parseFloat :: "string \<Rightarrow> number" where
  "parseFloat s =
     (let t = dropWhile isWhiteSpace s;
          neg = (case t of [] \<Rightarrow> False | c # _ \<Rightarrow> c = CHR ''-'');
          u = (case t of [] \<Rightarrow> [] | c # r \<Rightarrow> if c = CHR ''-'' \<or> c = CHR ''+'' then r else t)
      in if take 8 u = ''Infinity'' then (if neg then NegInf else PosInf)
         else
           let ip = takeWhile isDigit u;
               r1 = dropWhile isDigit u;
               dot = (case r1 of [] \<Rightarrow> False | c # _ \<Rightarrow> c = CHR ''.'');
               fp = (if dot then takeWhile isDigit (tl r1) else []);
               r2 = (if dot then dropWhile isDigit (tl r1) else r1)
           in if ip = [] \<and> fp = [] then NaN
              else
                let mant = of_nat (digitsValue (ip @ fp)) / 10 ^ length fp
                in Fin (scale10 (if neg then - mant else mant) (exponentPart r2)))"

definition isNaN :: "number \<Rightarrow> bool" where
  "isNaN n \<longleftrightarrow> n = NaN"

text \<open>\<open>n <= 0\<close> and \<open>n > 0\<close> on numbers; every comparison with \<open>NaN\<close> is false.\<close>

definition lessEqZero :: "number \<Rightarrow> bool" where
  "lessEqZero n = (case n of NaN \<Rightarrow> False | Fin r \<Rightarrow> r \<le> 0 | PosInf \<Rightarrow> False | NegInf \<Rightarrow> True)"

definition greaterZero :: "number \<Rightarrow> bool" where
  "greaterZero n = (case n of NaN \<Rightarrow> False | Fin r \<Rightarrow> 0 < r | PosInf \<Rightarrow> True | NegInf \<Rightarrow> False)"

text \<open>\<open>n || 0\<close> on a number: \<open>NaN\<close> and zero are falsy.\<close>

definition numberOrZero :: "number \<Rightarrow> number" where
  "numberOrZero n = (if n = NaN \<or> n = Fin 0 then Fin 0 else n)"

definition mexico :: string where
  "mexico = [CHR ''M'', CHR 0xE9, CHR ''x'', CHR ''i'', CHR ''c'', CHR ''o'']"

definition newline :: char where
  "newline = CHR 0x0A"

section \<open>ClientManager (App.tsx)\<close>

text \<open>
  The messages passed to \<open>alert\<close>, one constructor per message of the source:
  \<^item> \<open>AlertClientName\<close>: "El nombre o razon social es obligatorio."
  \<^item> \<open>AlertClientTaxId\<close>: "El RFC / Identificacion Fiscal es obligatorio para la facturacion."
  \<^item> \<open>AlertClientEmail\<close>: "El correo electronico es necesario para enviar la factura."
  \<^item> \<open>AlertClientAddress\<close>: "La direccion fiscal es obligatoria."
  \<^item> \<open>AlertClientZip\<close>: "El codigo postal es requerido para la validacion fiscal."
  \<^item> \<open>AlertClientsImported n\<close>: "n clientes importados correctamente."
  \<^item> \<open>AlertProductName\<close>: "El nombre del producto es obligatorio."
  \<^item> \<open>AlertProductCode\<close>: "El campo 'Codigo' (SKU o SAT) es obligatorio y no puede estar vacio."
  \<^item> \<open>AlertProductPrice\<close>: "El precio debe ser un numero positivo mayor a 0."
  \<^item> \<open>AlertProductsImported n\<close>: "n productos importados correctamente."
\<close>

datatype alert =
    AlertClientName | AlertClientTaxId | AlertClientEmail | AlertClientAddress
  | AlertClientZip | AlertClientsImported nat
  | AlertProductName | AlertProductCode | AlertProductPrice | AlertProductsImported nat

text \<open>\<open>Partial<Client>\<close>: every field may be absent.\<close>

record ClientForm =
  form_id :: "string option"
  form_name :: "string option"
  form_taxId :: "string option"
  form_email :: "string option"
  form_address :: "string option"
  form_city :: "string option"
  form_zip :: "string option"
  form_phone :: "string option"
  form_country :: "string option"

datatype ClientField =
    Field_id | Field_name | Field_taxId | Field_email | Field_address
  | Field_city | Field_zip | Field_phone | Field_country

definition emptyClientForm :: ClientForm where
  "emptyClientForm =
     \<lparr>form_id = None, form_name = None, form_taxId = None, form_email = None,
      form_address = None, form_city = None, form_zip = None, form_phone = None,
      form_country = None\<rparr>"

fun setClientField :: "ClientField \<Rightarrow> string \<Rightarrow> ClientForm \<Rightarrow> ClientForm" where
  "setClientField Field_id v f = f\<lparr>form_id := Some v\<rparr>"
| "setClientField Field_name v f = f\<lparr>form_name := Some v\<rparr>"
| "setClientField Field_taxId v f = f\<lparr>form_taxId := Some v\<rparr>"
| "setClientField Field_email v f = f\<lparr>form_email := Some v\<rparr>"
| "setClientField Field_address v f = f\<lparr>form_address := Some v\<rparr>"
| "setClientField Field_city v f = f\<lparr>form_city := Some v\<rparr>"
| "setClientField Field_zip v f = f\<lparr>form_zip := Some v\<rparr>"
| "setClientField Field_phone v f = f\<lparr>form_phone := Some v\<rparr>"
| "setClientField Field_country v f = f\<lparr>form_country := Some v\<rparr>"

text \<open>
  The component's state (\<open>clients\<close>, \<open>isModalOpen\<close>, \<open>searchTerm\<close>, \<open>formData\<close>),
  the client collection held by the storage service (\<open>storedClients\<close>, what
  \<open>storage.saveClients\<close> wrote last), and the alerts shown so far.
\<close>

record ClientManager =
  clients :: "Client list"
  isModalOpen :: bool
  searchTerm :: string
  formData :: ClientForm
  storedClients :: "Client list"
  alerts :: "alert list"

text \<open>\<open>useState<Client[]>(storage.getClients())\<close>, \<open>useState<Partial<Client>>({})\<close>.\<close>

definition initClientManager :: "Client list \<Rightarrow> ClientManager" where
  "initClientManager stored =
     \<lparr>clients = stored, isModalOpen = False, searchTerm = [], formData = emptyClientForm,
      storedClients = stored, alerts = []\<rparr>"

definition client_handleInputChange :: "ClientField \<Rightarrow> string \<Rightarrow> ClientManager \<Rightarrow> ClientManager" where
  "client_handleInputChange field v st =
     (let v' = (if field = Field_taxId then toUpperCase v else v)
      in st\<lparr>formData := setClientField field v' (formData st)\<rparr>)"

definition showClientAlert :: "alert \<Rightarrow> ClientManager \<Rightarrow> ClientManager" where
  "showClientAlert a st = st\<lparr>alerts := alerts st @ [a]\<rparr>"

text \<open>
  \<open>addClient\<close>; \<open>now\<close> is \<open>Date.now().toString()\<close>. Each failed check alerts and
  returns.
\<close>

definition addClient :: "string \<Rightarrow> ClientManager \<Rightarrow> ClientManager" where
  "addClient now st =
     (let f = formData st in
      case required (form_name f) of None \<Rightarrow> showClientAlert AlertClientName st
      | Some name \<Rightarrow>
      (case required (form_taxId f) of None \<Rightarrow> showClientAlert AlertClientTaxId st
      | Some taxId \<Rightarrow>
      (case required (form_email f) of None \<Rightarrow> showClientAlert AlertClientEmail st
      | Some email \<Rightarrow>
      (case required (form_address f) of None \<Rightarrow> showClientAlert AlertClientAddress st
      | Some address \<Rightarrow>
      (case required (form_zip f) of None \<Rightarrow> showClientAlert AlertClientZip st
      | Some zipCode \<Rightarrow>
         let newClient =
               \<lparr>client_id = now, client_name = name, client_taxId = taxId,
                client_email = email, client_address = address,
                client_city = Some (orElse (form_city f) []),
                client_zip = Some (orElse (form_zip f) []),
                client_phone = Some (orElse (form_phone f) []),
                client_country = Some (orElse (form_country f) mexico)\<rparr>;
             updated = clients st @ [newClient]
         in st\<lparr>clients := updated, storedClients := updated,
                formData := emptyClientForm, isModalOpen := False\<rparr>)))))"

text \<open>
  One row of the CSV import; \<open>ident\<close> is
  \<open>Date.now().toString() + Math.random().toString(36).substr(2, 5)\<close>.
\<close>

definition clientOfLine :: "string \<Rightarrow> string \<Rightarrow> Client option" where
  "clientOfLine ident line =
     (let cols = split (CHR '','') line in
      case col cols 0 of None \<Rightarrow> None
      | Some c0 \<Rightarrow>
          if length cols < 1 \<or> trim c0 = [] then None
          else Some
            \<lparr>client_id = ident, client_name = trim c0,
             client_taxId = orElse (map_option trim (col cols 1)) ''XAXX010101000'',
             client_email = orElse (map_option trim (col cols 2)) [],
             client_address = orElse (map_option trim (col cols 3)) [],
             client_city = None, client_zip = None, client_phone = None,
             client_country = Some mexico\<rparr>)"

text \<open>
  \<open>lines.slice(1).map(...).filter(c => c !== null)\<close>; \<open>mkId k\<close> is the identifier
  drawn for the row at position \<open>k\<close>.
\<close>

definition newClients :: "(nat \<Rightarrow> string) \<Rightarrow> string \<Rightarrow> Client list" where
  "newClients mkId text =
     List.map_filter (\<lambda>(k, line). clientOfLine (mkId k) line)
       (enumerate 0 (drop 1 (split newline text)))"

text \<open>
  The upload handler with the reader's \<open>onload\<close> callback, as one step on the state;
  \<open>file\<close> is the text of the chosen file, \<^term>\<open>None\<close> when no file was chosen.
\<close>

definition client_handleFileUpload ::
    "(nat \<Rightarrow> string) \<Rightarrow> string option \<Rightarrow> ClientManager \<Rightarrow> ClientManager" where
  "client_handleFileUpload mkId file st =
     (case file of None \<Rightarrow> st
      | Some text \<Rightarrow>
          let new = newClients mkId text in
          if length new > 0 then
            let updated = clients st @ new
            in showClientAlert (AlertClientsImported (length new))
                 (st\<lparr>clients := updated, storedClients := updated\<rparr>)
          else st)"

section \<open>ProductManager (App.tsx)\<close>

text \<open>
  \<open>Partial<Product>\<close>. The price field holds what the form puts there: the number 0
  of the initial state, the string of the input element after an edit, or nothing.
\<close>

datatype priceInput = PriceUndefined | PriceNumber number | PriceString string

record ProductForm =
  pform_id :: "string option"
  pform_code :: "string option"
  pform_name :: "string option"
  pform_price :: priceInput
  pform_unit :: "string option"
  pform_description :: "string option"

datatype ProductField =
    PField_id | PField_code | PField_name | PField_price | PField_unit | PField_description

text \<open>\<open>{ price: 0, unit: 'H87' }\<close>\<close>

definition initialProductForm :: ProductForm where
  "initialProductForm =
     \<lparr>pform_id = None, pform_code = None, pform_name = None,
      pform_price = PriceNumber (Fin 0), pform_unit = Some ''H87'',
      pform_description = None\<rparr>"

fun setProductField :: "ProductField \<Rightarrow> string \<Rightarrow> ProductForm \<Rightarrow> ProductForm" where
  "setProductField PField_id v f = f\<lparr>pform_id := Some v\<rparr>"
| "setProductField PField_code v f = f\<lparr>pform_code := Some v\<rparr>"
| "setProductField PField_name v f = f\<lparr>pform_name := Some v\<rparr>"
| "setProductField PField_price v f = f\<lparr>pform_price := PriceString v\<rparr>"
| "setProductField PField_unit v f = f\<lparr>pform_unit := Some v\<rparr>"
| "setProductField PField_description v f = f\<lparr>pform_description := Some v\<rparr>"

record ProductManager =
  products :: "Product list"
  productModalOpen :: bool
  productSearchTerm :: string
  currency :: string
  productForm :: ProductForm
  storedProducts :: "Product list"
  productAlerts :: "alert list"

definition initProductManager :: "Product list \<Rightarrow> ProductManager" where
  "initProductManager stored =
     \<lparr>products = stored, productModalOpen = False, productSearchTerm = [],
      currency = ''MXN'', productForm = initialProductForm, storedProducts = stored,
      productAlerts = []\<rparr>"

definition product_handleInputChange ::
    "ProductField \<Rightarrow> string \<Rightarrow> ProductManager \<Rightarrow> ProductManager" where
  "product_handleInputChange field v st =
     st\<lparr>productForm := setProductField field v (productForm st)\<rparr>"

definition showProductAlert :: "alert \<Rightarrow> ProductManager \<Rightarrow> ProductManager" where
  "showProductAlert a st = st\<lparr>productAlerts := productAlerts st @ [a]\<rparr>"

text \<open>
  \<open>typeof formData.price === 'string' ? parseFloat(formData.price) : formData.price\<close>;
  \<^term>\<open>None\<close> is \<open>undefined\<close>.
\<close>

definition priceValue :: "priceInput \<Rightarrow> number option" where
  "priceValue p =
     (case p of PriceString s \<Rightarrow> Some (parseFloat s)
      | PriceNumber n \<Rightarrow> Some n
      | PriceUndefined \<Rightarrow> None)"

definition addProduct :: "string \<Rightarrow> ProductManager \<Rightarrow> ProductManager" where
  "addProduct now st =
     (let f = productForm st in
      case required (pform_name f) of None \<Rightarrow> showProductAlert AlertProductName st
      | Some name \<Rightarrow>
      (case required (pform_code f) of None \<Rightarrow> showProductAlert AlertProductCode st
      | Some code \<Rightarrow>
      (case priceValue (pform_price f) of None \<Rightarrow> showProductAlert AlertProductPrice st
      | Some pv \<Rightarrow>
         if isNaN pv \<or> lessEqZero pv then showProductAlert AlertProductPrice st
         else
           let newProduct =
                 \<lparr>product_id = now, product_code = code, product_name = name,
                  product_price = pv,
                  product_unit = Some (orElse (pform_unit f) ''H87''),
                  product_description = Some (orElse (pform_description f) [])\<rparr>;
               updated = products st @ [newProduct]
           in st\<lparr>products := updated, storedProducts := updated,
                  productForm := initialProductForm, productModalOpen := False\<rparr>)))"

definition productOfLine :: "string \<Rightarrow> string \<Rightarrow> Product option" where
  "productOfLine ident line =
     (let cols = split (CHR '','') line in
      case col cols 0 of None \<Rightarrow> None
      | Some c0 \<Rightarrow>
          if length cols < 2 \<or> trim c0 = [] then None
          else Some
            \<lparr>product_id = ident,
             product_code = orElse (map_option trim (col cols 2)) ''CSV-IMP'',
             product_name = trim c0,
             product_price =
               numberOrZero (case map_option trim (col cols 1) of None \<Rightarrow> NaN
                             | Some p \<Rightarrow> parseFloat p),
             product_unit = Some ''H87'',
             product_description = None\<rparr>)"

definition newProducts :: "(nat \<Rightarrow> string) \<Rightarrow> string \<Rightarrow> Product list" where
  "newProducts mkId text =
     List.map_filter (\<lambda>(k, line). productOfLine (mkId k) line)
       (enumerate 0 (drop 1 (split newline text)))"

definition product_handleFileUpload ::
    "(nat \<Rightarrow> string) \<Rightarrow> string option \<Rightarrow> ProductManager \<Rightarrow> ProductManager" where
  "product_handleFileUpload mkId file st =
     (case file of None \<Rightarrow> st
      | Some text \<Rightarrow>
          let new = newProducts mkId text in
          if length new > 0 then
            let updated = products st @ new
            in showProductAlert (AlertProductsImported (length new))
                 (st\<lparr>products := updated, storedProducts := updated\<rparr>)
          else st)"

section \<open>Invoice engine: arithmetic, numbering, lifecycle\<close>

text \<open>
  The invoice builder lives in \<open>components/InvoiceManager\<close>, which \<open>App.tsx\<close>
  imports; the three parts below follow the specification's sections 4.1 to 4.3.
\<close>

datatype error = ValidationError string | LifecycleError status status

text \<open>
  Modelled from the spec: \<open>round2\<close>, the rounding of a monetary amount to two decimal
  places, half-up (section 4.1; the function is part of \<open>components/InvoiceManager\<close>).
\<close>

definition round2 :: "rat \<Rightarrow> rat" where
  "round2 x = of_int \<lfloor>x * 100 + 1 / 2\<rfloor> / 100"

text \<open>
  Modelled from the spec: the creation of an invoice item, whose total is
  \<open>quantity * unitPrice\<close> rounded to two decimals at creation time (sections 3 and 4.1;
  part of \<open>components/InvoiceManager\<close>).
\<close>

definition makeItem :: "string \<Rightarrow> string \<Rightarrow> string \<Rightarrow> rat \<Rightarrow> rat \<Rightarrow> InvoiceItem" where
  "makeItem ident productId productName quantity unitPrice =
     \<lparr>item_id = ident, item_productId = productId, item_productName = productName,
      item_quantity = quantity, item_unitPrice = unitPrice,
      item_total = round2 (quantity * unitPrice)\<rparr>"

record Totals =
  calc_subtotal :: rat
  calc_taxAmount :: rat
  calc_retentionAmount :: rat
  calc_total :: rat

text \<open>
  Modelled from the spec: the money/rate arithmetic of section 4.1 (part of
  \<open>components/InvoiceManager\<close>): the subtotal is the sum of the item totals, tax and
  retention are the rounded products with their rates, a negative rate is rejected
  with a \<open>ValidationError\<close>.
\<close>

definition computeTotals :: "InvoiceItem list \<Rightarrow> rat \<Rightarrow> rat \<Rightarrow> error + Totals" where
  "computeTotals items taxRate retentionRate =
     (if taxRate < 0 then Inl (ValidationError ''taxRate'')
      else if retentionRate < 0 then Inl (ValidationError ''retentionRate'')
      else
        let subtotal = sum_list (map item_total items);
            taxAmount = round2 (subtotal * taxRate);
            retentionAmount = round2 (subtotal * retentionRate)
        in Inr \<lparr>calc_subtotal = subtotal, calc_taxAmount = taxAmount,
                 calc_retentionAmount = retentionAmount,
                 calc_total = subtotal + taxAmount - retentionAmount\<rparr>)"

text \<open>
  Modelled from the spec: the decimal numerals of the numbering scheme of section 4.2
  (part of \<open>components/InvoiceManager\<close>): printing, left padding with zeros to four
  places, the numeric suffix of an invoice number (its trailing digits, 0 when there are
  none), and the maximum suffix of a collection.
\<close>

fun showNat :: "nat \<Rightarrow> string" where
  "showNat n =
     (if n < 10 then [char_of (48 + n)]
      else showNat (n div 10) @ [char_of (48 + n mod 10)])"

definition padStart4 :: "string \<Rightarrow> string" where
  "padStart4 s = replicate (4 - length s) (CHR ''0'') @ s"

definition numericSuffix :: "string \<Rightarrow> nat" where
  "numericSuffix s = digitsValue (rev (takeWhile isDigit (rev s)))"

definition maxSuffix :: "Invoice list \<Rightarrow> nat" where
  "maxSuffix existing = foldl (\<lambda>m i. max m (numericSuffix (inv_number i))) 0 existing"

text \<open>
  Modelled from the spec: \<open>nextNumber\<close>, the numbering authority of section 4.2 (part
  of \<open>components/InvoiceManager\<close>): the prefix \<open>INV-\<close> and the zero-padded larger of
  \<open>count(existingInvoices) + 1\<close> and the maximum existing numeric suffix plus one.
\<close>

definition nextNumber :: "Invoice list \<Rightarrow> string" where
  "nextNumber existingInvoices =
     ''INV-'' @ padStart4 (showNat (max (length existingInvoices + 1)
                                        (maxSuffix existingInvoices + 1)))"

text \<open>
  Modelled from the spec: the scenario of section 8 for the numbering authority:
  \<open>nextNumber\<close> applied \<open>n\<close> times, an invoice with the number drawn being
  persisted after each call (\<open>tmpl\<close> gives its other fields); and the deletion of
  the highest-numbered invoice of a collection.
\<close>

fun issueNumbers :: "Invoice \<Rightarrow> nat \<Rightarrow> Invoice list \<Rightarrow> string list" where
  "issueNumbers tmpl 0 existing = []"
| "issueNumbers tmpl (Suc n) existing =
     (let k = nextNumber existing
      in k # issueNumbers tmpl n (existing @ [tmpl\<lparr>inv_number := k\<rparr>]))"

definition deleteHighest :: "Invoice list \<Rightarrow> Invoice list" where
  "deleteHighest existing =
     (let m = maxSuffix existing
      in takeWhile (\<lambda>i. numericSuffix (inv_number i) \<noteq> m) existing
         @ drop 1 (dropWhile (\<lambda>i. numericSuffix (inv_number i) \<noteq> m) existing))"

text \<open>
  Modelled from the spec: the transition table of the status state machine of section
  4.3 under the policy that nothing leaves \<open>paid\<close> (part of
  \<open>components/InvoiceManager\<close>): \<open>draft \<rightarrow> pending\<close>, \<open>pending \<rightarrow> paid\<close>,
  \<open>draft \<rightarrow> paid\<close> and \<open>pending \<rightarrow> draft\<close> are allowed.
\<close>

fun allowedTransition :: "status \<Rightarrow> status \<Rightarrow> bool" where
  "allowedTransition Draft Pending = True"
| "allowedTransition Pending Paid = True"
| "allowedTransition Draft Paid = True"
| "allowedTransition Pending Draft = True"
| "allowedTransition _ _ = False"

text \<open>
  Modelled from the spec: a transition request (section 4.3; part of
  \<open>components/InvoiceManager\<close>): an allowed request sets the status, any other
  signals a \<open>LifecycleError\<close> naming the from/to pair.
\<close>

definition requestTransition :: "Invoice \<Rightarrow> status \<Rightarrow> error + Invoice" where
  "requestTransition invoice to =
     (if allowedTransition (inv_status invoice) to then Inr (invoice\<lparr>inv_status := to\<rparr>)
      else Inl (LifecycleError (inv_status invoice) to))"

text \<open>
  Modelled from the spec: the request applied to a stored invoice (section 7: the
  error is surfaced, the invoice state is unchanged); the result is the invoice held
  afterwards and the error surfaced, if any.
\<close>

definition setStatus :: "status \<Rightarrow> Invoice \<Rightarrow> Invoice \<times> error option" where
  "setStatus to invoice =
     (case requestTransition invoice to of
        Inl e \<Rightarrow> (invoice, Some e)
      | Inr invoice' \<Rightarrow> (invoice', None))"

section \<open>Notions used in the statements\<close>

text \<open>
  A form field is missing or blank when it is absent or empty after trimming. The
  required fields of the client form, in the order in which \<open>addClient\<close> checks them,
  each with the alert that reports it.
\<close>

definition missingOrBlank :: "string option \<Rightarrow> bool" where
  "missingOrBlank x = (case x of None \<Rightarrow> True | Some s \<Rightarrow> trim s = [])"

fun getClientField :: "ClientField \<Rightarrow> ClientForm \<Rightarrow> string option" where
  "getClientField Field_id f = form_id f"
| "getClientField Field_name f = form_name f"
| "getClientField Field_taxId f = form_taxId f"
| "getClientField Field_email f = form_email f"
| "getClientField Field_address f = form_address f"
| "getClientField Field_city f = form_city f"
| "getClientField Field_zip f = form_zip f"
| "getClientField Field_phone f = form_phone f"
| "getClientField Field_country f = form_country f"

definition requiredClientFields :: "(ClientField \<times> alert) list" where
  "requiredClientFields =
     [(Field_name, AlertClientName), (Field_taxId, AlertClientTaxId),
      (Field_email, AlertClientEmail), (Field_address, AlertClientAddress),
      (Field_zip, AlertClientZip)]"

definition firstMissing :: "ClientForm \<Rightarrow> (ClientField \<times> alert) option" where
  "firstMissing f = find (\<lambda>(fld, a). missingOrBlank (getClientField fld f)) requiredClientFields"

text \<open>Sample inputs.\<close>

definition sampleClientForm :: ClientForm where
  "sampleClientForm =
     \<lparr>form_id = None, form_name = Some ''Empresa SA de CV'',
      form_taxId = Some ''XAXX010101000'', form_email = Some ''contacto@empresa.com'',
      form_address = Some ''Av. Reforma 123'', form_city = None, form_zip = Some ''06600'',
      form_phone = None, form_country = None\<rparr>"

definition sampleClient :: Client where
  "sampleClient =
     \<lparr>client_id = ''1700000000000'', client_name = ''Cliente Uno'',
      client_taxId = ''AAA010101AAA'', client_email = ''uno@example.com'',
      client_address = ''Calle 1'', client_city = Some ''CDMX'', client_zip = Some ''01000'',
      client_phone = Some [], client_country = Some mexico\<rparr>"

definition sampleProduct :: Product where
  "sampleProduct =
     \<lparr>product_id = ''1700000000001'', product_code = ''81112200'',
      product_name = ''Licencia de Software'', product_price = Fin 1500,
      product_unit = Some ''H87'', product_description = Some []\<rparr>"

definition rowId :: "nat \<Rightarrow> string" where
  "rowId k = ''id'' @ showNat k"

definition clientCsv :: string where
  "clientCsv = ''name,taxId,email,address'' @ [newline] @ ''Acme,abc010101xyz,a@acme.mx,Calle 2''
     @ [newline] @ ''Beta''"

definition productCsv :: string where
  "productCsv = ''name,price,code'' @ [newline] @ ''Widget,abc,W1'' @ [newline] @ ''Gadget,12.50''"

definition badPriceCsv :: string where
  "badPriceCsv = ''name,price,code'' @ [newline] @ ''Widget,abc,W1'' @ [newline] @ ''Descuento,-5,D1''"

text \<open>
  A collection keeps the records of an earlier one when every earlier record is still
  there, unchanged, at its position.
\<close>

definition keepsRecords :: "'a list \<Rightarrow> 'a list \<Rightarrow> bool" where
  "keepsRecords before after \<longleftrightarrow>
     length before \<le> length after \<and> (\<forall>k < length before. after ! k = before ! k)"

text \<open>Sample states: a filled client form, one with a blank tax id, and a product form
  with a price typed in.\<close>

definition formOk :: ClientManager where
  "formOk = (initClientManager [sampleClient])\<lparr>formData := sampleClientForm\<rparr>"

definition formBlank :: ClientManager where
  "formBlank = (initClientManager [sampleClient])
     \<lparr>formData := sampleClientForm\<lparr>form_taxId := Some ''   ''\<rparr>\<rparr>"

definition formPrice :: ProductManager where
  "formPrice = (initProductManager [sampleProduct])
     \<lparr>productForm := initialProductForm\<lparr>pform_name := Some ''Tornillo'',
        pform_code := Some ''T-1'', pform_price := PriceString ''12.50''\<rparr>\<rparr>"

definition sampleInvoices :: "Invoice list" where
  "sampleInvoices =
     [sampleInvoice ''INV-0001'' ''2024-01-05'' 100,
      sampleInvoice ''INV-0003'' ''2024-01-07'' 80,
      sampleInvoice ''INV-0002'' ''2024-01-06'' 50]"

section \<open>Report aggregation\<close>




lemma filter_distinct_key:
  "distinct (map f xs) \<Longrightarrow> x \<in> set xs \<Longrightarrow> filter (\<lambda>i. f i = f x) xs = [x]"
proof (induction xs)
  case Nil
  then show ?case by simp
next
  case (Cons y ys)
  show ?case
  proof (cases "x = y")
    case True
    have "filter (\<lambda>i. f i = f y) ys = []"
      using Cons.prems(1) by (auto simp: filter_empty_conv image_iff)
    with True show ?thesis by simp
  next
    case False
    with Cons.prems have xin: "x \<in> set ys" and "f y \<noteq> f x" by auto
    with Cons.IH Cons.prems(1) show ?thesis by simp
  qed
qed

lemma chartData_bucketed_if_distinct:
  assumes "distinct (map inv_date invoices)"
  shows "dateBucketed invoices (chartData invoices)"
proof -
  have names: "map point_name (chartData invoices) = map inv_date invoices"
    by (simp add: chartData_def comp_def)
  have "point_total p =
      sum_list (map inv_total (filter (\<lambda>i. inv_date i = point_name p) invoices))"
    if "p \<in> set (chartData invoices)" for p
  proof -
    from that obtain x where x: "x \<in> set invoices"
      and p: "p = \<lparr>point_name = inv_date x, point_total = inv_total x\<rparr>"
      by (auto simp: chartData_def)
    have "filter (\<lambda>i. inv_date i = inv_date x) invoices = [x]"
      using assms x by (rule filter_distinct_key)
    with p show ?thesis by simp
  qed
  then show ?thesis
    unfolding dateBucketed_def names using assms by (simp add: list_all_iff)
qed

text \<open>
  C5 (as amended). The dashboard's series has one point per invoice, in the order of
  the collection, carrying that invoice's date and total; invoices sharing a date are
  not merged. So the series is the date-bucketed one (one point per distinct date, the
  amount being the sum of the totals of that date) when the dates of the invoices are
  pairwise distinct.
\<close>

theorem chartData_per_invoice:
  "length (chartData invoices) = length invoices \<and>
   (\<forall>k < length invoices.
      point_name (chartData invoices ! k) = inv_date (invoices ! k) \<and>
      point_total (chartData invoices ! k) = inv_total (invoices ! k)) \<and>
   (distinct (map inv_date invoices) \<longrightarrow> dateBucketed invoices (chartData invoices))"
  using chartData_bucketed_if_distinct by (simp add: chartData_def)

theorem chartData_per_invoice_witness:
  "length (chartData [sampleInvoice ''INV-0001'' ''2024-01-05'' 100,
                      sampleInvoice ''INV-0002'' ''2024-01-06'' 50]) = 2 \<and>
   dateBucketed [sampleInvoice ''INV-0001'' ''2024-01-05'' 100,
                 sampleInvoice ''INV-0002'' ''2024-01-06'' 50]
     (chartData [sampleInvoice ''INV-0001'' ''2024-01-05'' 100,
                 sampleInvoice ''INV-0002'' ''2024-01-06'' 50])"
  using chartData_per_invoice [of "[sampleInvoice ''INV-0001'' ''2024-01-05'' 100,
                 sampleInvoice ''INV-0002'' ''2024-01-06'' 50]"]
  by (simp add: sampleInvoice_def)

theorem chartData_same_date_counterexample:
  "\<not> dateBucketed [sampleInvoice ''INV-0001'' ''2024-01-05'' 100,
                   sampleInvoice ''INV-0002'' ''2024-01-05'' 50]
       (chartData [sampleInvoice ''INV-0001'' ''2024-01-05'' 100,
                   sampleInvoice ''INV-0002'' ''2024-01-05'' 50])"
  by (simp add: dateBucketed_def chartData_def sampleInvoice_def)

section \<open>Money and rate arithmetic\<close>

lemma round2_zero: "round2 0 = 0"
  by code_simp
lemma round2_examples:
  "round2 200 = 200" "round2 32 = 32" "round2 (5997 / 100) = 5997 / 100"
  "round2 (1 / 3) = 33 / 100" "round2 (1206 / 125) = 965 / 100" "round2 (603 / 100) = 603 / 100"
  by code_simp+

text \<open>
  C1. For every sequence of invoice items and rates \<open>taxRate, retentionRate \<ge> 0\<close> the
  computation succeeds with \<open>subtotal\<close> the sum of the items' totals,
  \<open>taxAmount = round2 (subtotal * taxRate)\<close>,
  \<open>retentionAmount = round2 (subtotal * retentionRate)\<close> and
  \<open>total = subtotal + taxAmount - retentionAmount\<close>; one item of quantity 2 and unit
  price 100.00 at a tax rate of 0.16 without retention gives 200.00, 32.00 and 232.00;
  an invoice without items has subtotal and total 0.
\<close>

theorem computeTotals_correct:
  "(0 \<le> taxRate \<and> 0 \<le> retentionRate \<longrightarrow>
     (\<exists>t. computeTotals items taxRate retentionRate = Inr t \<and>
        calc_subtotal t = sum_list (map item_total items) \<and>
        calc_taxAmount t = round2 (calc_subtotal t * taxRate) \<and>
        calc_retentionAmount t = round2 (calc_subtotal t * retentionRate) \<and>
        calc_total t = calc_subtotal t + calc_taxAmount t - calc_retentionAmount t)) \<and>
   computeTotals [makeItem ident productId productName 2 100] (16 / 100) 0 =
     Inr \<lparr>calc_subtotal = 200, calc_taxAmount = 32, calc_retentionAmount = 0,
          calc_total = 232\<rparr> \<and>
   (0 \<le> taxRate \<and> 0 \<le> retentionRate \<longrightarrow>
     computeTotals [] taxRate retentionRate =
       Inr \<lparr>calc_subtotal = 0, calc_taxAmount = 0, calc_retentionAmount = 0,
            calc_total = 0\<rparr>)"
  by (simp add: computeTotals_def makeItem_def Let_def round2_zero round2_examples)

theorem computeTotals_correct_witness:
  "(0::rat) \<le> 16 / 100 \<and> (0::rat) \<le> 1 / 10 \<and>
   (\<exists>t. computeTotals [makeItem ''i1'' ''p1'' ''Licencia'' 3 (1999 / 100),
                        makeItem ''i2'' ''p2'' ''Soporte'' 1 (1 / 3)] (16 / 100) (1 / 10) = Inr t \<and>
        calc_subtotal t = 603 / 10 \<and>
        calc_taxAmount t = 965 / 100 \<and>
        calc_retentionAmount t = 603 / 100 \<and>
        calc_total t = 6392 / 100)"
proof -
  have rates: "(0::rat) \<le> 16 / 100 \<and> (0::rat) \<le> 1 / 10" by simp
  from computeTotals_correct [of "16 / 100" "1 / 10"
      "[makeItem ''i1'' ''p1'' ''Licencia'' 3 (1999 / 100),
        makeItem ''i2'' ''p2'' ''Soporte'' 1 (1 / 3)]", THEN conjunct1, rule_format, OF rates]
  obtain t where t: "computeTotals [makeItem ''i1'' ''p1'' ''Licencia'' 3 (1999 / 100),
        makeItem ''i2'' ''p2'' ''Soporte'' 1 (1 / 3)] (16 / 100) (1 / 10) = Inr t"
    and sub: "calc_subtotal t = sum_list (map item_total
        [makeItem ''i1'' ''p1'' ''Licencia'' 3 (1999 / 100),
         makeItem ''i2'' ''p2'' ''Soporte'' 1 (1 / 3)])"
    and tax: "calc_taxAmount t = round2 (calc_subtotal t * (16 / 100))"
    and ret: "calc_retentionAmount t = round2 (calc_subtotal t * (1 / 10))"
    and tot: "calc_total t = calc_subtotal t + calc_taxAmount t - calc_retentionAmount t"
    by blast
  from sub have sub': "calc_subtotal t = 603 / 10"
    by (simp add: makeItem_def round2_examples)
  from tax sub' have tax': "calc_taxAmount t = 965 / 100"
    by (simp add: round2_examples)
  from ret sub' have ret': "calc_retentionAmount t = 603 / 100"
    by (simp add: round2_examples)
  from tot sub' tax' ret' have "calc_total t = 6392 / 100" by simp
  with rates t sub' tax' ret' show ?thesis by blast
qed

section \<open>Invoice lifecycle\<close>

text \<open>
  C3. From \<open>draft\<close> the requests \<open>pending\<close> and then \<open>paid\<close> both succeed; the
  request \<open>paid \<rightarrow> pending\<close> fails with the \<open>LifecycleError\<close> of that pair and the
  invoice is left as it was; every request outside the table fails with the error
  naming its from/to pair and leaves the invoice unchanged, and a request that reports
  no error has set the status to a new value: no request is a silent no-op.
\<close>

theorem lifecycle_transitions:
  "(inv_status invoice = Draft \<longrightarrow>
      setStatus Pending invoice = (invoice\<lparr>inv_status := Pending\<rparr>, None) \<and>
      setStatus Paid (fst (setStatus Pending invoice)) = (invoice\<lparr>inv_status := Paid\<rparr>, None)) \<and>
   (inv_status invoice = Paid \<longrightarrow>
      setStatus Pending invoice = (invoice, Some (LifecycleError Paid Pending))) \<and>
   (\<not> allowedTransition (inv_status invoice) to \<longrightarrow>
      setStatus to invoice = (invoice, Some (LifecycleError (inv_status invoice) to))) \<and>
   (snd (setStatus to invoice) = None \<longrightarrow>
      allowedTransition (inv_status invoice) to \<and>
      fst (setStatus to invoice) = invoice\<lparr>inv_status := to\<rparr> \<and> to \<noteq> inv_status invoice)"
  by (cases "inv_status invoice"; cases to)
     (simp_all add: setStatus_def requestTransition_def)

theorem lifecycle_transitions_witness:
  "setStatus Pending (sampleInvoice ''INV-0001'' ''2024-01-05'' 100\<lparr>inv_status := Draft\<rparr>)
     = (sampleInvoice ''INV-0001'' ''2024-01-05'' 100, None) \<and>
   setStatus Pending (sampleInvoice ''INV-0001'' ''2024-01-05'' 100\<lparr>inv_status := Paid\<rparr>)
     = (sampleInvoice ''INV-0001'' ''2024-01-05'' 100\<lparr>inv_status := Paid\<rparr>,
        Some (LifecycleError Paid Pending)) \<and>
   setStatus Draft (sampleInvoice ''INV-0001'' ''2024-01-05'' 100\<lparr>inv_status := Draft\<rparr>)
     = (sampleInvoice ''INV-0001'' ''2024-01-05'' 100\<lparr>inv_status := Draft\<rparr>,
        Some (LifecycleError Draft Draft))"
  using lifecycle_transitions [of "sampleInvoice ''INV-0001'' ''2024-01-05'' 100\<lparr>inv_status := Draft\<rparr>" Draft]
    lifecycle_transitions [of "sampleInvoice ''INV-0001'' ''2024-01-05'' 100\<lparr>inv_status := Paid\<rparr>" Pending]
  by (simp add: sampleInvoice_def)


section \<open>Client form\<close>

lemma required_None_iff: "required x = None \<longleftrightarrow> missingOrBlank x"
  by (simp add: required_def missingOrBlank_def split: option.splits)

lemma required_Some_iff: "required x = Some s \<longleftrightarrow> x = Some s \<and> trim s \<noteq> []"
  by (auto simp: required_def split: option.splits)

lemma firstMissing_None_iff:
  "firstMissing f = None \<longleftrightarrow>
     \<not> missingOrBlank (form_name f) \<and> \<not> missingOrBlank (form_taxId f) \<and>
     \<not> missingOrBlank (form_email f) \<and> \<not> missingOrBlank (form_address f) \<and>
     \<not> missingOrBlank (form_zip f)"
  by (simp add: firstMissing_def requiredClientFields_def find_None_iff)

lemma addClient_rejects:
  "firstMissing (formData st) = Some (fld, a) \<Longrightarrow>
     addClient now st = st\<lparr>alerts := alerts st @ [a]\<rparr>"
  by (auto simp: firstMissing_def requiredClientFields_def addClient_def showClientAlert_def
      required_None_iff[symmetric] Let_def split: if_splits option.splits)

lemma addClient_accepts:
  assumes "firstMissing (formData st) = None"
  shows "\<exists>c. addClient now st =
           st\<lparr>clients := clients st @ [c], storedClients := clients st @ [c],
              formData := emptyClientForm, isModalOpen := False\<rparr> \<and>
         client_id c = now \<and>
         Some (client_name c) = form_name (formData st) \<and>
         Some (client_taxId c) = form_taxId (formData st) \<and>
         Some (client_email c) = form_email (formData st) \<and>
         Some (client_address c) = form_address (formData st) \<and>
         client_zip c = form_zip (formData st)"
proof -
  from assms obtain name taxId email address zipCode where
    r: "required (form_name (formData st)) = Some name"
       "required (form_taxId (formData st)) = Some taxId"
       "required (form_email (formData st)) = Some email"
       "required (form_address (formData st)) = Some address"
       "required (form_zip (formData st)) = Some zipCode"
    unfolding firstMissing_None_iff required_None_iff[symmetric] by auto
  from r have v: "form_name (formData st) = Some name" "form_taxId (formData st) = Some taxId"
      "form_email (formData st) = Some email" "form_address (formData st) = Some address"
      "form_zip (formData st) = Some zipCode" "zipCode \<noteq> []"
    by (auto simp: required_Some_iff trim_def)
  let ?c = "\<lparr>client_id = now, client_name = name, client_taxId = taxId,
                client_email = email, client_address = address,
                client_city = Some (orElse (form_city (formData st)) []),
                client_zip = Some zipCode,
                client_phone = Some (orElse (form_phone (formData st)) []),
                client_country = Some (orElse (form_country (formData st)) mexico)\<rparr>"
  have "addClient now st =
      st\<lparr>clients := clients st @ [?c], storedClients := clients st @ [?c],
         formData := emptyClientForm, isModalOpen := False\<rparr>"
    using r v(5,6) by (simp add: addClient_def Let_def orElse_def)
  with v show ?thesis by (intro exI [of _ ?c]) simp
qed

text \<open>
  C6. \<open>addClient\<close> appends the new client to the collection and saves it exactly
  when name, tax id, email, address and zip are all non-empty after trimming. When one
  of them is missing or blank, the alert of the first such field (in the order name, tax
  id, email, address, zip) is shown and nothing else changes: the stored collection and
  the component's collection are the ones before.
\<close>

theorem addClient_validation:
  "(firstMissing (formData st) = None \<longleftrightarrow>
      \<not> missingOrBlank (form_name (formData st)) \<and>
      \<not> missingOrBlank (form_taxId (formData st)) \<and>
      \<not> missingOrBlank (form_email (formData st)) \<and>
      \<not> missingOrBlank (form_address (formData st)) \<and>
      \<not> missingOrBlank (form_zip (formData st))) \<and>
   (case firstMissing (formData st) of
      None \<Rightarrow>
        (\<exists>c. addClient now st =
           st\<lparr>clients := clients st @ [c], storedClients := clients st @ [c],
              formData := emptyClientForm, isModalOpen := False\<rparr> \<and>
         client_id c = now \<and>
         Some (client_name c) = form_name (formData st) \<and>
         Some (client_taxId c) = form_taxId (formData st) \<and>
         Some (client_email c) = form_email (formData st) \<and>
         Some (client_address c) = form_address (formData st) \<and>
         client_zip c = form_zip (formData st))
    | Some (fld, a) \<Rightarrow>
        missingOrBlank (getClientField fld (formData st)) \<and>
        addClient now st = st\<lparr>alerts := alerts st @ [a]\<rparr> \<and>
        storedClients (addClient now st) = storedClients st \<and>
        clients (addClient now st) = clients st)"
proof (cases "firstMissing (formData st)")
  case None
  with addClient_accepts [OF None, of now] firstMissing_None_iff [of "formData st"]
  show ?thesis by simp
next
  case (Some p)
  obtain fld a where p: "p = (fld, a)" by (cases p)
  from Some p have m: "missingOrBlank (getClientField fld (formData st))"
    by (auto simp: firstMissing_def find_Some_iff)
  from Some p addClient_rejects [of st fld a now] m firstMissing_None_iff [of "formData st"]
  show ?thesis by simp
qed

theorem addClient_validation_witness:
  "firstMissing (formData formOk) = None \<and>
   (\<exists>c. addClient ''1700000000002'' formOk =
      formOk\<lparr>clients := clients formOk @ [c], storedClients := clients formOk @ [c],
         formData := emptyClientForm, isModalOpen := False\<rparr> \<and>
      Some (client_taxId c) = Some ''XAXX010101000'') \<and>
   firstMissing (formData formBlank) = Some (Field_taxId, AlertClientTaxId) \<and>
   addClient ''1700000000002'' formBlank = formBlank\<lparr>alerts := [AlertClientTaxId]\<rparr> \<and>
   storedClients (addClient ''1700000000002'' formBlank) = [sampleClient]"
proof -
  have ok: "firstMissing (formData formOk) = None"
    by code_simp
  have blank: "firstMissing (formData formBlank) = Some (Field_taxId, AlertClientTaxId)"
    by code_simp
  have t: "form_taxId (formData formOk) = Some ''XAXX010101000''"
    by (simp add: formOk_def sampleClientForm_def)
  have a: "alerts formBlank = []" "storedClients formBlank = [sampleClient]"
    by (simp_all add: formBlank_def initClientManager_def)
  from addClient_validation [of formOk "''1700000000002''"] ok t
  have "\<exists>c. addClient ''1700000000002'' formOk =
      formOk\<lparr>clients := clients formOk @ [c], storedClients := clients formOk @ [c],
         formData := emptyClientForm, isModalOpen := False\<rparr> \<and>
      Some (client_taxId c) = Some ''XAXX010101000''"
    by auto
  moreover
  from addClient_validation [of formBlank "''1700000000002''"] blank a
  have "addClient ''1700000000002'' formBlank = formBlank\<lparr>alerts := [AlertClientTaxId]\<rparr>"
    "storedClients (addClient ''1700000000002'' formBlank) = [sampleClient]"
    by simp_all
  ultimately show ?thesis using ok blank by simp
qed

section \<open>Client CSV import\<close>






lemma client_upload_stored:
  "storedClients (client_handleFileUpload mkId (Some text) st) =
     (if newClients mkId text = [] then storedClients st else clients st @ newClients mkId text)"
  by (simp add: client_handleFileUpload_def Let_def showClientAlert_def)

lemma clientCsv_rows: "newClients rowId clientCsv =
   [\<lparr>client_id = ''id0'', client_name = ''Acme'', client_taxId = ''abc010101xyz'',
     client_email = ''a@acme.mx'', client_address = ''Calle 2'',
     client_city = None, client_zip = None, client_phone = None,
     client_country = Some mexico\<rparr>,
    \<lparr>client_id = ''id1'', client_name = ''Beta'', client_taxId = ''XAXX010101000'',
     client_email = [], client_address = [],
     client_city = None, client_zip = None, client_phone = None,
     client_country = Some mexico\<rparr>]"
  by code_simp



lemma form_taxId_uppercased:
  "form_taxId (formData (client_handleInputChange Field_taxId v st)) = Some (toUpperCase v)"
  by (simp add: client_handleInputChange_def)

lemma form_taxId_stored_uppercased:
  assumes "firstMissing (formData (client_handleInputChange Field_taxId v st)) = None"
  shows "\<exists>c. storedClients (addClient now (client_handleInputChange Field_taxId v st))
             = clients st @ [c] \<and> client_taxId c = toUpperCase v"
proof -
  let ?st = "client_handleInputChange Field_taxId v st"
  from addClient_accepts [OF assms, of now] obtain c where
    c: "addClient now ?st = ?st\<lparr>clients := clients ?st @ [c],
          storedClients := clients ?st @ [c], formData := emptyClientForm,
          isModalOpen := False\<rparr>"
       "Some (client_taxId c) = form_taxId (formData ?st)"
    by blast
  have "clients ?st = clients st"
    by (simp add: client_handleInputChange_def)
  with c form_taxId_uppercased [of v st] show ?thesis by simp
qed

text \<open>
  C7. The claim that every stored client has its tax id in upper case fails on the CSV
  import: the form path upper-cases the tax id (\<open>form_taxId_stored_uppercased\<close>), the import
  stores the second column as it is. Importing the row \<open>Acme,abc010101xyz,...\<close>
  into an empty collection stores the tax id \<open>abc010101xyz\<close>, whose upper-case form
  is \<open>ABC010101XYZ\<close>.
\<close>

theorem csv_import_taxId_case:
  "map client_taxId (storedClients (client_handleFileUpload rowId (Some clientCsv)
       (initClientManager []))) = [''abc010101xyz'', ''XAXX010101000''] \<and>
   toUpperCase ''abc010101xyz'' = ''ABC010101XYZ''"
proof -
  have "toUpperCase ''abc010101xyz'' = ''ABC010101XYZ''" by code_simp
  then show ?thesis
    by (simp add: client_upload_stored clientCsv_rows initClientManager_def)
qed

section \<open>Products\<close>

lemma lessEqZero_greaterZero: "\<not> isNaN n \<Longrightarrow> \<not> lessEqZero n \<Longrightarrow> greaterZero n"
  by (cases n) (auto simp: isNaN_def lessEqZero_def greaterZero_def)

lemma addProduct_cases:
  "(\<exists>a. addProduct now st = st\<lparr>productAlerts := productAlerts st @ [a]\<rparr>) \<or>
   (\<exists>p. addProduct now st =
          st\<lparr>products := products st @ [p], storedProducts := products st @ [p],
             productForm := initialProductForm, productModalOpen := False\<rparr> \<and>
        greaterZero (product_price p) \<and>
        priceValue (pform_price (productForm st)) = Some (product_price p))"
  by (auto simp: addProduct_def Let_def showProductAlert_def lessEqZero_greaterZero
      split: option.splits)

lemma addProduct_bad_price:
  assumes "priceValue (pform_price (productForm st)) = None \<or>
     (\<exists>n. priceValue (pform_price (productForm st)) = Some n \<and> (isNaN n \<or> lessEqZero n))"
  shows "\<exists>a. addProduct now st = st\<lparr>productAlerts := productAlerts st @ [a]\<rparr>"
  using assms
  by (auto simp: addProduct_def Let_def showProductAlert_def split: option.splits)

lemma form_price_positive:
  "(\<exists>a. addProduct now st = st\<lparr>productAlerts := productAlerts st @ [a]\<rparr>) \<or>
   (\<exists>p. storedProducts (addProduct now st) = products st @ [p] \<and>
        greaterZero (product_price p))"
  using addProduct_cases [of now st] by (elim disjE exE) auto

lemma form_rejects_bad_price:
  assumes "priceValue (pform_price (productForm st)) = None \<or>
     (\<exists>n. priceValue (pform_price (productForm st)) = Some n \<and> (isNaN n \<or> lessEqZero n))"
  shows "storedProducts (addProduct now st) = storedProducts st \<and>
         products (addProduct now st) = products st"
proof -
  from addProduct_bad_price [OF assms, of now]
  obtain a where "addProduct now st = st\<lparr>productAlerts := productAlerts st @ [a]\<rparr>" ..
  then show ?thesis by simp
qed

lemma product_upload_stored:
  "storedProducts (product_handleFileUpload mkId (Some text) st) =
     (if newProducts mkId text = [] then storedProducts st else products st @ newProducts mkId text)"
  by (simp add: product_handleFileUpload_def Let_def showProductAlert_def)

lemma badPriceCsv_rows: "newProducts rowId badPriceCsv =
   [\<lparr>product_id = ''id0'', product_code = ''W1'', product_name = ''Widget'',
     product_price = Fin 0, product_unit = Some ''H87'', product_description = None\<rparr>,
    \<lparr>product_id = ''id1'', product_code = ''D1'', product_name = ''Descuento'',
     product_price = Fin (- 5), product_unit = Some ''H87'', product_description = None\<rparr>]"
  by code_simp

text \<open>
  C8. The claim that every stored product has a price greater than 0 fails on the CSV
  import. The form path enforces it (\<open>form_price_positive\<close>,
  \<open>form_rejects_bad_price\<close>: a missing, non-numeric, zero or negative price only
  raises the alert); the import handler has no such check. Importing the rows
  \<open>Widget,abc,W1\<close> and \<open>Descuento,-5,D1\<close> into an empty collection saves two
  products, with the prices 0 and -5, neither greater than 0.
\<close>

theorem csv_import_price_not_positive:
  "map product_price
     (storedProducts (product_handleFileUpload rowId (Some badPriceCsv) (initProductManager [])))
     = [Fin 0, Fin (- 5)] \<and>
   \<not> greaterZero (Fin 0) \<and> \<not> greaterZero (Fin (- 5))"
  by (simp add: product_upload_stored badPriceCsv_rows initProductManager_def greaterZero_def)

section \<open>Additions only append\<close>

lemma addClient_appends:
  "\<exists>new. storedClients (addClient now st) = storedClients st @ new \<and>
         clients (addClient now st) = clients st @ new" if "clients st = storedClients st"
proof (cases "firstMissing (formData st)")
  case None
  from addClient_accepts [OF None, of now] obtain c where
    "addClient now st = st\<lparr>clients := clients st @ [c], storedClients := clients st @ [c],
              formData := emptyClientForm, isModalOpen := False\<rparr>" by blast
  with that show ?thesis by simp
next
  case (Some p)
  obtain fld a where "p = (fld, a)" by (cases p)
  with Some addClient_rejects [of st fld a now] show ?thesis by simp
qed

lemma client_upload_appends:
  "\<exists>new. storedClients (client_handleFileUpload mkId file st) = storedClients st @ new \<and>
         clients (client_handleFileUpload mkId file st) = clients st @ new"
  if "clients st = storedClients st"
  using that
  by (cases "file") (simp_all add: client_handleFileUpload_def Let_def showClientAlert_def)

lemma addProduct_appends:
  "\<exists>new. storedProducts (addProduct now st) = storedProducts st @ new \<and>
         products (addProduct now st) = products st @ new" if "products st = storedProducts st"
  using addProduct_cases [of now st] that by (elim disjE exE) auto

lemma product_upload_appends:
  "\<exists>new. storedProducts (product_handleFileUpload mkId file st) = storedProducts st @ new \<and>
         products (product_handleFileUpload mkId file st) = products st @ new"
  if "products st = storedProducts st"
  using that
  by (cases "file") (simp_all add: product_handleFileUpload_def Let_def showProductAlert_def)

lemma keepsRecords_append: "keepsRecords xs (xs @ ys)"
  by (simp add: keepsRecords_def nth_append)

text \<open>
  C10. Starting from a component whose collection is the stored one (as it is after
  \<open>useState(storage.getClients())\<close>, and after every operation below), adding a client
  or a product through the form or through CSV import keeps every stored record,
  unchanged and at its position, in the collection saved afterwards.
\<close>

theorem additions_only_append:
  assumes "clients cst = storedClients cst" and "products pst = storedProducts pst"
  shows "keepsRecords (storedClients cst) (storedClients (addClient cnow cst)) \<and>
         clients (addClient cnow cst) = storedClients (addClient cnow cst) \<and>
         keepsRecords (storedClients cst) (storedClients (client_handleFileUpload cid cfile cst)) \<and>
         clients (client_handleFileUpload cid cfile cst)
           = storedClients (client_handleFileUpload cid cfile cst) \<and>
         keepsRecords (storedProducts pst) (storedProducts (addProduct pnow pst)) \<and>
         products (addProduct pnow pst) = storedProducts (addProduct pnow pst) \<and>
         keepsRecords (storedProducts pst) (storedProducts (product_handleFileUpload pid pfile pst)) \<and>
         products (product_handleFileUpload pid pfile pst)
           = storedProducts (product_handleFileUpload pid pfile pst)"
proof -
  from addClient_appends [OF assms(1), of cnow] obtain n1 where
    "storedClients (addClient cnow cst) = storedClients cst @ n1"
    "clients (addClient cnow cst) = clients cst @ n1" by blast
  then have 1: "keepsRecords (storedClients cst) (storedClients (addClient cnow cst))"
      "clients (addClient cnow cst) = storedClients (addClient cnow cst)"
    using assms(1) by (simp_all add: keepsRecords_append)
  from client_upload_appends [OF assms(1), of cid cfile] obtain n2 where
    "storedClients (client_handleFileUpload cid cfile cst) = storedClients cst @ n2"
    "clients (client_handleFileUpload cid cfile cst) = clients cst @ n2" by blast
  then have 2: "keepsRecords (storedClients cst) (storedClients (client_handleFileUpload cid cfile cst))"
      "clients (client_handleFileUpload cid cfile cst)
           = storedClients (client_handleFileUpload cid cfile cst)"
    using assms(1) by (simp_all add: keepsRecords_append)
  from addProduct_appends [OF assms(2), of pnow] obtain n3 where
    "storedProducts (addProduct pnow pst) = storedProducts pst @ n3"
    "products (addProduct pnow pst) = products pst @ n3" by blast
  then have 3: "keepsRecords (storedProducts pst) (storedProducts (addProduct pnow pst))"
      "products (addProduct pnow pst) = storedProducts (addProduct pnow pst)"
    using assms(2) by (simp_all add: keepsRecords_append)
  from product_upload_appends [OF assms(2), of pid pfile] obtain n4 where
    "storedProducts (product_handleFileUpload pid pfile pst) = storedProducts pst @ n4"
    "products (product_handleFileUpload pid pfile pst) = products pst @ n4" by blast
  then have 4: "keepsRecords (storedProducts pst) (storedProducts (product_handleFileUpload pid pfile pst))"
      "products (product_handleFileUpload pid pfile pst)
           = storedProducts (product_handleFileUpload pid pfile pst)"
    using assms(2) by (simp_all add: keepsRecords_append)
  from 1 2 3 4 show ?thesis by simp
qed

theorem additions_only_append_witness:
  "clients formOk = storedClients formOk \<and> products formPrice = storedProducts formPrice \<and>
   storedClients (addClient ''1700000000002'' formOk) ! 0 = sampleClient \<and>
   length (storedClients (addClient ''1700000000002'' formOk)) = 2 \<and>
   storedClients (client_handleFileUpload rowId (Some clientCsv) formOk) ! 0 = sampleClient \<and>
   length (storedClients (client_handleFileUpload rowId (Some clientCsv) formOk)) = 3 \<and>
   storedProducts (addProduct ''1700000000003'' formPrice) ! 0 = sampleProduct \<and>
   length (storedProducts (addProduct ''1700000000003'' formPrice)) = 2 \<and>
   storedProducts (product_handleFileUpload rowId (Some productCsv) formPrice) ! 0 = sampleProduct \<and>
   length (storedProducts (product_handleFileUpload rowId (Some productCsv) formPrice)) = 3"
proof -
  have c: "clients formOk = storedClients formOk" "storedClients formOk = [sampleClient]"
    by (simp_all add: formOk_def initClientManager_def)
  have p: "products formPrice = storedProducts formPrice" "storedProducts formPrice = [sampleProduct]"
    by (simp_all add: formPrice_def initProductManager_def)
  have len: "length (storedClients (addClient ''1700000000002'' formOk)) = 2"
    "length (storedClients (client_handleFileUpload rowId (Some clientCsv) formOk)) = 3"
    "length (storedProducts (addProduct ''1700000000003'' formPrice)) = 2"
    "length (storedProducts (product_handleFileUpload rowId (Some productCsv) formPrice)) = 3"
    by code_simp+
  from additions_only_append [OF c(1) p(1), of "''1700000000002''" rowId "Some clientCsv"
      "''1700000000003''" rowId "Some productCsv"]
  have "storedClients (addClient ''1700000000002'' formOk) ! 0 = sampleClient"
    "storedClients (client_handleFileUpload rowId (Some clientCsv) formOk) ! 0 = sampleClient"
    "storedProducts (addProduct ''1700000000003'' formPrice) ! 0 = sampleProduct"
    "storedProducts (product_handleFileUpload rowId (Some productCsv) formPrice) ! 0 = sampleProduct"
    by (simp_all add: keepsRecords_def c(2) p(2))
  then show ?thesis using c(1) p(1) len by simp
qed


section \<open>Numbering authority\<close>

lemma digit_char: "d < 10 \<Longrightarrow> isDigit (char_of (48 + d)) \<and> digitValue (char_of (48 + d)) = d"
  by (simp add: isDigit_def digitValue_def)

lemma digitsValue_snoc: "digitsValue (ds @ [c]) = 10 * digitsValue ds + digitValue c"
  by (simp add: digitsValue_def)

lemma showNat_digits: "list_all isDigit (showNat n) \<and> digitsValue (showNat n) = n"
proof (induction n rule: showNat.induct)
  case (1 n)
  show ?case
  proof (cases "n < 10")
    case True
    then show ?thesis
      using digit_char [of n] by (simp add: digitsValue_def)
  next
    case False
    with 1 have IH: "list_all isDigit (showNat (n div 10))" "digitsValue (showNat (n div 10)) = n div 10"
      by simp_all
    have d: "isDigit (char_of (48 + n mod 10))" "digitValue (char_of (48 + n mod 10)) = n mod 10"
      using digit_char [of "n mod 10"] by simp_all
    have eq: "showNat n = showNat (n div 10) @ [char_of (48 + n mod 10)]"
      using False by (subst showNat.simps) simp
    show ?thesis
      unfolding eq using IH d by (simp add: digitsValue_snoc)
  qed
qed

lemma foldl_zeros: "foldl (\<lambda>acc c. 10 * acc + digitValue c) 0 (replicate k (CHR ''0'')) = 0"
  by (induction k) (simp_all add: digitValue_def)

lemma padStart4_digits:
  "list_all isDigit ds \<Longrightarrow> list_all isDigit (padStart4 ds) \<and> digitsValue (padStart4 ds) = digitsValue ds"
proof -
  have z: "isDigit (CHR ''0'')" by (simp add: isDigit_def)
  assume "list_all isDigit ds"
  then show ?thesis
    by (auto simp: padStart4_def digitsValue_def foldl_zeros list_all_iff z)
qed

lemma numericSuffix_prefixed:
  assumes "list_all isDigit ds"
  shows "numericSuffix (''INV-'' @ ds) = digitsValue ds"
proof -
  have nd: "\<not> isDigit (CHR ''-'')" by (simp add: isDigit_def)
  have all: "\<And>x. x \<in> set (rev ds) \<Longrightarrow> isDigit x"
    using assms by (simp add: list_all_iff)
  have "takeWhile isDigit (rev ds @ rev ''INV-'') = rev ds @ takeWhile isDigit (rev ''INV-'')"
    using all by (rule takeWhile_append2)
  then have "takeWhile isDigit (rev (''INV-'' @ ds)) = rev ds"
    unfolding rev_append by (simp add: nd)
  then show ?thesis
    unfolding numericSuffix_def by (simp only: rev_rev_ident)
qed

lemma numericSuffix_nextNumber:
  "numericSuffix (nextNumber existing) = max (length existing + 1) (maxSuffix existing + 1)"
proof -
  let ?n = "max (length existing + 1) (maxSuffix existing + 1)"
  have d: "list_all isDigit (showNat ?n)" and v: "digitsValue (showNat ?n) = ?n"
    using showNat_digits [of ?n] by blast+
  from padStart4_digits [OF d] v
  have "list_all isDigit (padStart4 (showNat ?n))" "digitsValue (padStart4 (showNat ?n)) = ?n"
    by simp_all
  with numericSuffix_prefixed [of "padStart4 (showNat ?n)"] show ?thesis
    unfolding nextNumber_def by simp
qed

lemma foldl_max_ge:
  "(a::nat) \<le> foldl (\<lambda>m i. max m (f i)) a xs \<and> (\<forall>i \<in> set xs. f i \<le> foldl (\<lambda>m i. max m (f i)) a xs)"
proof (induction xs arbitrary: a)
  case Nil
  then show ?case by simp
next
  case (Cons x xs)
  from Cons [of "max a (f x)"] show ?case by auto
qed

lemma maxSuffix_ge: "i \<in> set existing \<Longrightarrow> numericSuffix (inv_number i) \<le> maxSuffix existing"
  using foldl_max_ge [of 0 "\<lambda>i. numericSuffix (inv_number i)" existing]
  by (simp add: maxSuffix_def)

lemma nextNumber_greater:
  "i \<in> set existing \<Longrightarrow> numericSuffix (inv_number i) < numericSuffix (nextNumber existing)"
  using maxSuffix_ge [of i existing] by (simp add: numericSuffix_nextNumber)

lemma nextNumber_fresh: "nextNumber existing \<notin> set (map inv_number existing)"
proof
  assume "nextNumber existing \<in> set (map inv_number existing)"
  then obtain i where i: "i \<in> set existing" "inv_number i = nextNumber existing" by auto
  from nextNumber_greater [OF i(1)] i(2) show False by simp
qed

lemma issueNumbers_props:
  "length (issueNumbers tmpl n existing) = n \<and>
   sorted_wrt (\<lambda>a b. numericSuffix a < numericSuffix b) (issueNumbers tmpl n existing) \<and>
   (\<forall>k \<in> set (issueNumbers tmpl n existing).
      \<forall>i \<in> set existing. numericSuffix (inv_number i) < numericSuffix k)"
proof (induction n arbitrary: existing)
  case 0
  then show ?case by simp
next
  case (Suc n)
  let ?k = "nextNumber existing"
  let ?ex = "existing @ [tmpl\<lparr>inv_number := ?k\<rparr>]"
  from Suc [of ?ex] have len: "length (issueNumbers tmpl n ?ex) = n"
    and srt: "sorted_wrt (\<lambda>a b. numericSuffix a < numericSuffix b) (issueNumbers tmpl n ?ex)"
    and gt: "\<forall>k \<in> set (issueNumbers tmpl n ?ex).
      \<forall>i \<in> set ?ex. numericSuffix (inv_number i) < numericSuffix k"
    by blast+
  from gt have gtk: "\<forall>k \<in> set (issueNumbers tmpl n ?ex). numericSuffix ?k < numericSuffix k"
    by simp
  from gt have gtold: "\<forall>k \<in> set (issueNumbers tmpl n ?ex).
      \<forall>i \<in> set existing. numericSuffix (inv_number i) < numericSuffix k"
    by simp
  show ?case
    using len srt gtk gtold nextNumber_greater [of _ existing]
    by (simp add: Let_def)
qed

lemma sorted_wrt_suffix_distinct:
  "sorted_wrt (\<lambda>a b. numericSuffix a < numericSuffix b) ks \<Longrightarrow> distinct ks"
  by (induction ks) auto

lemma foldl_max_attained:
  "foldl (\<lambda>m i. max m (f i)) (a::nat) xs = a \<or>
   (\<exists>i \<in> set xs. f i = foldl (\<lambda>m i. max m (f i)) a xs)"
proof (induction xs arbitrary: a)
  case Nil
  then show ?case by simp
next
  case (Cons x xs)
  from Cons [of "max a (f x)"] show ?case
    by (auto simp: max_def split: if_splits)
qed

lemma maxSuffix_attained:
  assumes "existing \<noteq> []"
  shows "\<exists>i \<in> set existing. numericSuffix (inv_number i) = maxSuffix existing"
proof (cases "maxSuffix existing = 0")
  case True
  from assms obtain i where i: "i \<in> set existing" by (cases existing) auto
  with maxSuffix_ge [OF i] True show ?thesis by auto
next
  case False
  with foldl_max_attained [of "\<lambda>i. numericSuffix (inv_number i)" 0 existing]
  show ?thesis by (simp add: maxSuffix_def)
qed

lemma deleteHighest_removes_one:
  "length (deleteHighest existing) = length existing - 1 \<and>
   set (deleteHighest existing) \<subseteq> set existing"
proof (cases "existing = []")
  case True
  then show ?thesis by (simp add: deleteHighest_def)
next
  case False
  let ?P = "\<lambda>i. numericSuffix (inv_number i) \<noteq> maxSuffix existing"
  from maxSuffix_attained [OF False] have "dropWhile ?P existing \<noteq> []"
    by (auto simp: dropWhile_eq_Nil_conv)
  then have pos: "0 < length (dropWhile ?P existing)" by simp
  have split: "length (takeWhile ?P existing) + length (dropWhile ?P existing) = length existing"
    by (metis length_append takeWhile_dropWhile_id)
  have "length (deleteHighest existing)
      = length (takeWhile ?P existing) + (length (dropWhile ?P existing) - 1)"
    by (simp add: deleteHighest_def Let_def)
  with pos split have len: "length (deleteHighest existing) = length existing - 1"
    by arith
  have "set (deleteHighest existing) \<subseteq> set existing"
    by (auto simp: deleteHighest_def Let_def dest: set_takeWhileD in_set_dropD set_dropWhileD)
  with len show ?thesis by simp
qed

text \<open>
  C2. For every invoice collection, \<open>nextNumber\<close> returns a number that no invoice of
  the collection bears and whose numeric suffix is greater than that of every number in
  the collection. Applied \<open>n\<close> times, each result being persisted, it yields \<open>n\<close>
  distinct numbers, each greater by suffix than the ones before it and than every number
  of the collection; this holds as well for the collection left after deleting its
  highest-numbered invoice (the numbers drawn are then greater than every number still in
  the collection). From the empty collection the first two numbers are \<open>INV-0001\<close>
  and \<open>INV-0002\<close>.
\<close>

theorem nextNumber_unique_increasing:
  "(\<forall>i \<in> set existing. numericSuffix (inv_number i) < numericSuffix (nextNumber existing)) \<and>
   nextNumber existing \<notin> set (map inv_number existing) \<and>
   length (issueNumbers tmpl n existing) = n \<and>
   distinct (issueNumbers tmpl n existing) \<and>
   sorted_wrt (\<lambda>a b. numericSuffix a < numericSuffix b) (issueNumbers tmpl n existing) \<and>
   (\<forall>k \<in> set (issueNumbers tmpl n existing).
      \<forall>i \<in> set existing. numericSuffix (inv_number i) < numericSuffix k) \<and>
   length (issueNumbers tmpl n (deleteHighest existing)) = n \<and>
   distinct (issueNumbers tmpl n (deleteHighest existing)) \<and>
   sorted_wrt (\<lambda>a b. numericSuffix a < numericSuffix b)
     (issueNumbers tmpl n (deleteHighest existing)) \<and>
   (\<forall>k \<in> set (issueNumbers tmpl n (deleteHighest existing)).
      \<forall>i \<in> set (deleteHighest existing). numericSuffix (inv_number i) < numericSuffix k) \<and>
   length (deleteHighest existing) = length existing - 1 \<and>
   set (deleteHighest existing) \<subseteq> set existing \<and>
   nextNumber [] = ''INV-0001'' \<and>
   nextNumber [tmpl\<lparr>inv_number := nextNumber []\<rparr>] = ''INV-0002''"
proof -
  have first: "nextNumber [] = ''INV-0001''"
    by code_simp
  have s1: "numericSuffix ''INV-0001'' = 1"
    by code_simp
  have pad: "padStart4 (showNat (Suc (Suc 0))) = ''0002''"
    by code_simp
  have second: "nextNumber [tmpl\<lparr>inv_number := nextNumber []\<rparr>] = ''INV-0002''"
    unfolding first by (simp add: nextNumber_def maxSuffix_def s1 pad del: showNat.simps)
  show ?thesis
    using issueNumbers_props [of tmpl n existing]
      issueNumbers_props [of tmpl n "deleteHighest existing"]
      sorted_wrt_suffix_distinct nextNumber_greater [of _ existing] nextNumber_fresh [of existing]
      deleteHighest_removes_one [of existing] first second
    by blast
qed

theorem nextNumber_unique_increasing_witness:
  "sampleInvoice ''INV-0003'' ''2024-01-07'' 80 \<in> set sampleInvoices \<and>
   numericSuffix ''INV-0003'' < numericSuffix (nextNumber sampleInvoices) \<and>
   nextNumber sampleInvoices = ''INV-0004'' \<and>
   map inv_number (deleteHighest sampleInvoices) = [''INV-0001'', ''INV-0002''] \<and>
   issueNumbers (sampleInvoice [] [] 0) 3 (deleteHighest sampleInvoices)
     = [''INV-0003'', ''INV-0004'', ''INV-0005'']"
proof -
  have mem: "sampleInvoice ''INV-0003'' ''2024-01-07'' 80 \<in> set sampleInvoices"
    by (simp add: sampleInvoices_def)
  from nextNumber_unique_increasing [of sampleInvoices] mem
  have "numericSuffix (inv_number (sampleInvoice ''INV-0003'' ''2024-01-07'' 80))
      < numericSuffix (nextNumber sampleInvoices)"
    by blast
  then have lt: "numericSuffix ''INV-0003'' < numericSuffix (nextNumber sampleInvoices)"
    by (simp add: sampleInvoice_def)
  have ev: "nextNumber sampleInvoices = ''INV-0004''"
    "map inv_number (deleteHighest sampleInvoices) = [''INV-0001'', ''INV-0002'']"
    "issueNumbers (sampleInvoice [] [] 0) 3 (deleteHighest sampleInvoices)
     = [''INV-0003'', ''INV-0004'', ''INV-0005'']"
    by code_simp+
  with mem lt show ?thesis by simp
qed


end
